theory Spec2Isabelle
  imports Main
begin

section \<open>Data model of the MiniKit bridge\<close>

text \<open>
  The bridge is the static class \<open>MiniKit\<close> of \<open>src/unnamed/part_000\<close> (the newest snapshot
  of \<open>minikit.ts\<close>, the one with eleven commands). Its process-wide fields become one
  record \<open>state\<close> that every operation takes and returns. JavaScript objects whose shape
  the bridge does not look into are values of \<open>json\<close>.
\<close>

datatype Command = Verify | Pay | WalletAuth | SendTransaction | SignMessage | SignTypedData
  | ShareContacts | RequestPermission | GetPermissions | SendHapticFeedback | ShareFiles

text \<open>The string value of each member of the enum \<open>Command\<close> (\<open>types/commands.ts\<close>).\<close>

fun command_name :: "Command \<Rightarrow> string" where
  "command_name Verify = ''verify''"
| "command_name Pay = ''pay''"
| "command_name WalletAuth = ''wallet-auth''"
| "command_name SendTransaction = ''send-transaction''"
| "command_name SignMessage = ''sign-message''"
| "command_name SignTypedData = ''sign-typed-data''"
| "command_name ShareContacts = ''share-contacts''"
| "command_name RequestPermission = ''request-permission''"
| "command_name GetPermissions = ''get-permissions''"
| "command_name SendHapticFeedback = ''send-haptic-feedback''"
| "command_name ShareFiles = ''share-files''"

text \<open>\<open>MiniKit.miniKitCommandVersion\<close>: the version the bridge requires of each command.\<close>

fun miniKitCommandVersion :: "Command \<Rightarrow> int" where
  "miniKitCommandVersion Verify = 1"
| "miniKitCommandVersion Pay = 1"
| "miniKitCommandVersion WalletAuth = 1"
| "miniKitCommandVersion SendTransaction = 1"
| "miniKitCommandVersion SignMessage = 1"
| "miniKitCommandVersion SignTypedData = 1"
| "miniKitCommandVersion ShareContacts = 1"
| "miniKitCommandVersion RequestPermission = 1"
| "miniKitCommandVersion GetPermissions = 1"
| "miniKitCommandVersion SendHapticFeedback = 1"
| "miniKitCommandVersion ShareFiles = 1"

text \<open>
  \<open>Object.entries(this.miniKitCommandVersion)\<close>: the rows of the table in the order the
  object literal lists its keys.
\<close>

definition miniKitCommandVersion_entries :: "(Command \<times> int) list" where
  "miniKitCommandVersion_entries =
     map (\<lambda>c. (c, miniKitCommandVersion c))
       [Verify, Pay, WalletAuth, SendTransaction, SignMessage, SignTypedData, ShareContacts,
        RequestPermission, GetPermissions, SendHapticFeedback, ShareFiles]"

datatype ResponseEvent = MiniAppVerifyAction | MiniAppPayment | MiniAppWalletAuth
  | MiniAppSendTransaction | MiniAppSignMessage | MiniAppSignTypedData | MiniAppShareContacts
  | MiniAppRequestPermission | MiniAppGetPermissions | MiniAppSendHapticFeedback
  | MiniAppShareFiles

datatype json = JNull | JBool bool | JNum int | JStr string | JArr "json list"
  | JObj "(string \<times> json) list"

text \<open>
  An inbound event payload. The bridge reads \<open>status\<close>, \<open>verification_level\<close>, \<open>proof\<close>
  (here \<open>proof_hex\<close>) and \<open>address\<close>, and writes \<open>proof\<close>; every other field of the
  host's object is carried in \<open>details\<close>. A field the host left out is the empty string.
\<close>

record EventPayload =
  status :: string
  verification_level :: string
  proof_hex :: string
  address :: string
  details :: "(string \<times> json) list"

text \<open>\<open>VerificationLevel.Orb\<close> of idkit-core.\<close>

definition VerificationLevel_Orb :: string where
  "VerificationLevel_Orb = ''orb''"

text \<open>The host context object \<open>window.WorldApp\<close> and the browser's \<open>window\<close>.\<close>

record supported_command =
  name :: string
  supported_versions :: "int list"

record world_app =
  world_app_version :: int
  device_os :: string
  is_optional_analytics :: bool
  supported_commands :: "supported_command list"

record browser_window =
  MiniKit :: bool
  WorldApp :: "world_app option"
  location_href :: string
  location_host :: string

record User =
  walletAddress :: "string option"
  username :: "string option"
  profilePictureUrl :: "string option"
  optedIntoOptionalAnalytics :: "bool option"
  deviceOS :: "string option"
  worldAppVersion :: "int option"

datatype UserProfile = UserProfile (profile_username: "string option")
  (profile_picture_url: "string option")

datatype MiniKitInstallErrorCodes = Unknown | AlreadyInstalled | OutsideOfWorldApp | AppOutOfDate

text \<open>
  \<open>MiniKitInstallReturnType\<close>; the \<open>errorMessage\<close> is the table entry of the error code
  and is left out.
\<close>

datatype MiniKitInstallReturnType = Success | Failure MiniKitInstallErrorCodes

text \<open>What the bridge writes with \<open>console.warn\<close> and \<open>console.error\<close>.\<close>

datatype log_entry =
    Warn_AppIdNotProvided
  | Error_InstallUnknown
  | Error_CommandNotSupported string
  | Error_NoHandler ResponseEvent EventPayload
  | Error_CommandUnavailable string
  | Error_FailedToFetchUserProfile
  | Error_WalletAuthValidation string
  | Error_FailedToGetCurrentURL

text \<open>What the bridge hands to the transport: the \<open>init\<close> message and command envelopes.\<close>

datatype WebViewMessage = InitMessage int | CommandMessage Command int json

text \<open>
  The functions a listener slot can hold. \<open>Noop\<close> is the initial \<open>() => {}\<close>. A caller's
  own handler is opaque: \<open>Caller n\<close> returns normally and \<open>Faulty n\<close> throws, and each
  invocation is recorded in \<open>calls\<close>. \<open>WalletAuthWrapped\<close> and \<open>VerifyWrapped\<close> are the
  two \<open>wrappedHandler\<close> closures of \<open>subscribe\<close>, \<open>HandleAndUnsubscribe\<close> is the closure of
  \<open>awaitCommand\<close> over its topic and its promise.
\<close>

datatype handler = Noop | Caller nat | Faulty nat
  | WalletAuthWrapped handler | VerifyWrapped handler
  | HandleAndUnsubscribe ResponseEvent nat

record response =
  commandPayload :: "json option"
  finalPayload :: EventPayload

datatype settlement = Pending | Resolved response | Rejected

text \<open>
  One \<open>awaitCommand\<close> call: the variable \<open>commandPayload\<close> its closure captures, and the
  state of the promise it returned.
\<close>

record correlation =
  slot :: "json option"
  resolution :: settlement

text \<open>
  A suspended continuation: the \<open>.then\<close> callback on \<open>compressAndPadProof\<close> in the verify
  wrapper, the rest of the wallet-auth wrapper after \<open>await MiniKit.getUserByAddress\<close>, the
  rest of \<open>commandsAsync.verify\<close> after \<open>await MiniKit.awaitCommand\<close>, and its rest after
  \<open>await compressAndPadProof\<close>.
\<close>

datatype task =
    CompressThen EventPayload handler
  | LookupThen EventPayload handler
  | AwaitCommandThen nat nat
  | CompressAgain response nat

record state =
  window :: "browser_window option"
  transport_ok :: bool
  isCommandAvailable :: "Command \<Rightarrow> bool"
  listeners :: "ResponseEvent \<Rightarrow> handler option"
  appId :: "string option"
  user :: User
  sent :: "WebViewMessage list"
  console :: "log_entry list"
  calls :: "(nat \<times> EventPayload) list"
  pending :: "task list"
  correlations :: "correlation list"
  async_results :: "settlement list"

text \<open>
  A call either returns a value or throws; the state it leaves is kept in both cases.
\<close>

datatype 'a result = Return 'a state | Throw state

fun state_of :: "'a result \<Rightarrow> state" where
  "state_of (Return v s) = s"
| "state_of (Throw s) = s"

text \<open>
  The class as it is loaded: every flag false, every listener the no-op, no identity, an
  empty user. \<open>window = None\<close> is \<open>typeof window === 'undefined'\<close>.
\<close>

definition initial_state :: "browser_window option \<Rightarrow> bool \<Rightarrow> state" where
  "initial_state w ok =
     \<lparr> window = w, transport_ok = ok,
       isCommandAvailable = (\<lambda>c. False),
       listeners = (\<lambda>e. Some Noop),
       appId = None,
       user = \<lparr> walletAddress = None, username = None, profilePictureUrl = None,
                optedIntoOptionalAnalytics = None, deviceOS = None, worldAppVersion = None \<rparr>,
       sent = [], console = [], calls = [], pending = [], correlations = [],
       async_results = [] \<rparr>"

section \<open>Transport and installation\<close>

text \<open>
  Modelled from the spec: \<open>sendWebviewEvent\<close> (\<open>helpers/send-webview-event\<close>) is not among
  the sources; the spec calls it the single primitive "post message to host". The message
  is appended to \<open>sent\<close>; \<open>transport_ok = False\<close> is a transport that throws, the case the
  \<open>try\<close> of \<open>install\<close> catches.
\<close>

definition sendWebviewEvent :: "WebViewMessage \<Rightarrow> state \<Rightarrow> unit result" where
  "sendWebviewEvent m s =
     (if transport_ok s then Return () (s\<lparr>sent := sent s @ [m]\<rparr>) else Throw s)"

definition sendMiniKitEvent :: "WebViewMessage \<Rightarrow> state \<Rightarrow> unit result" where
  "sendMiniKitEvent payload s = sendWebviewEvent payload s"

definition MINIKIT_VERSION :: int where
  "MINIKIT_VERSION = 1"

definition sendInit :: "state \<Rightarrow> unit result" where
  "sendInit s = sendWebviewEvent (InitMessage MINIKIT_VERSION) s"

text \<open>
  \<open>commandsValid\<close>: \<open>Object.entries(...).every(callback)\<close>. \<open>every\<close> stops at the first
  row whose callback returns false, so the rows after it are not visited. The callback
  logs when the host does not list the command and sets the flag when it does, whatever
  the versions; it returns whether the required version is among the supported ones.
\<close>

fun commandsValid_every ::
  "supported_command list \<Rightarrow> (Command \<times> int) list \<Rightarrow> state \<Rightarrow> bool \<times> state" where
  "commandsValid_every worldAppSupportedCommands [] s = (True, s)"
| "commandsValid_every worldAppSupportedCommands ((minikitCommandName, version) # rest) s =
     (case find (\<lambda>command. name command = command_name minikitCommandName)
             worldAppSupportedCommands of
        None \<Rightarrow>
          (False,
           s\<lparr>console := console s @ [Error_CommandNotSupported (command_name minikitCommandName)]\<rparr>)
      | Some commandInput \<Rightarrow>
          (let s' = s\<lparr>isCommandAvailable := (isCommandAvailable s)(minikitCommandName := True)\<rparr>
           in if version \<in> set (supported_versions commandInput)
              then commandsValid_every worldAppSupportedCommands rest s'
              else (False, s')))"

definition commandsValid :: "supported_command list \<Rightarrow> state \<Rightarrow> bool \<times> state" where
  "commandsValid worldAppSupportedCommands s =
     commandsValid_every worldAppSupportedCommands miniKitCommandVersion_entries s"

definition set_user_properties :: "world_app \<Rightarrow> state \<Rightarrow> state" where
  "set_user_properties wa s =
     s\<lparr>user := (user s)\<lparr>optedIntoOptionalAnalytics := Some (is_optional_analytics wa),
                         deviceOS := Some (device_os wa),
                         worldAppVersion := Some (world_app_version wa)\<rparr>\<rparr>"

text \<open>
  \<open>MiniKit.install(appId?)\<close>. The argument is \<open>None\<close> for \<open>undefined\<close>; \<open>!appId\<close> also
  holds of the empty string.
\<close>

definition install :: "string option \<Rightarrow> state \<Rightarrow> MiniKitInstallReturnType \<times> state" where
  "install appId_arg s =
     (case window s of
        None \<Rightarrow> (Failure AlreadyInstalled, s)
      | Some w \<Rightarrow>
          if MiniKit w then (Failure AlreadyInstalled, s)
          else
            (let s1 = (if appId_arg = None \<or> appId_arg = Some []
                       then s\<lparr>console := console s @ [Warn_AppIdNotProvided]\<rparr>
                       else s\<lparr>appId := appId_arg\<rparr>)
             in case WorldApp w of
                  None \<Rightarrow> (Failure OutsideOfWorldApp, s1)
                | Some wa \<Rightarrow>
                    (let s2 = set_user_properties wa s1;
                         s3 = s2\<lparr>window := Some (w\<lparr>MiniKit := True\<rparr>)\<rparr>
                     in case sendInit s3 of
                          Throw s4 \<Rightarrow>
                            (Failure Unknown, s4\<lparr>console := console s4 @ [Error_InstallUnknown]\<rparr>)
                        | Return u s4 \<Rightarrow>
                            (case commandsValid (supported_commands wa) s4 of
                               (False, s5) \<Rightarrow> (Failure AppOutOfDate, s5)
                             | (True, s5) \<Rightarrow> (Success, set_user_properties wa s5)))))"

section \<open>Command entry points\<close>

text \<open>
  The helpers the class imports from outside the sources are parameters: the hashing of
  idkit-core, the validators, the SIWE formatter, the proof re-encoding and the profile
  lookup (\<open>None\<close> is a rejected promise), the clock (\<open>new Date().toISOString()\<close>) and the
  URL parser (\<open>URL_protocol href\<close> is \<open>new URL(href).protocol.split(':')[0]\<close>, \<open>None\<close> when
  the constructor throws). A helper that throws is not modelled.
\<close>

record helpers =
  encodeAction :: "json \<Rightarrow> string"
  generateSignal_digest :: "json \<Rightarrow> string"
  validatePaymentPayload :: "(string \<times> json) list \<Rightarrow> bool"
  validateWalletAuthCommandInput_valid :: "json \<Rightarrow> bool"
  validateWalletAuthCommandInput_message :: "json \<Rightarrow> string"
  generateSiweMessage :: "json \<Rightarrow> string"
  validateSendTransactionPayload :: "json \<Rightarrow> json"
  compressAndPadProof :: "string \<Rightarrow> string option"
  getUserProfile :: "string \<Rightarrow> UserProfile option"
  toISOString_now :: string
  URL_protocol :: "string \<Rightarrow> string option"

text \<open>
  \<open>VerifyCommandInput\<close>: \<open>signal\<close> is \<open>JNull\<close> and \<open>requested_level\<close> (the input's
  \<open>verification_level\<close>) is \<open>None\<close> when the caller left them out.
\<close>

datatype VerifyCommandInput = VerifyCommandInput (action: json) (signal: json)
  (requested_level: "string option")

text \<open>\<open>WalletAuthInput\<close>; the two dates are held as their \<open>toISOString()\<close>.\<close>

datatype WalletAuthInput = WalletAuthInput (nonce: string) (statement: "string option")
  (requestId: "string option") (expirationTime: "string option") (notBefore: "string option")

text \<open>\<open>x ?? undefined\<close> as a property value: \<open>JNull\<close> stands for \<open>undefined\<close>.\<close>

fun or_undefined :: "string option \<Rightarrow> json" where
  "or_undefined None = JNull"
| "or_undefined (Some x) = JStr x"

definition WalletAuthInput_json :: "WalletAuthInput \<Rightarrow> json" where
  "WalletAuthInput_json payload =
     JObj [(''nonce'', JStr (nonce payload)),
           (''statement'', or_undefined (statement payload)),
           (''requestId'', or_undefined (requestId payload)),
           (''expirationTime'', or_undefined (expirationTime payload)),
           (''notBefore'', or_undefined (notBefore payload))]"

text \<open>
  A property written into an object by a spread followed by the key (\<open>{...payload, network}\<close>):
  an existing key keeps its place, a new one goes last.
\<close>

fun set_field :: "string \<Rightarrow> json \<Rightarrow> (string \<times> json) list \<Rightarrow> (string \<times> json) list" where
  "set_field k v [] = [(k, v)]"
| "set_field k v (p # ps) = (if fst p = k then (k, v) # ps else p # set_field k v ps)"

text \<open>\<open>Network.WorldChain\<close> of \<open>types/payment\<close>.\<close>

definition Network_WorldChain :: json where
  "Network_WorldChain = JStr ''worldchain''"

text \<open>The branch every entry takes when its guard fails: \<open>console.error\<close>, then \<open>return null\<close>.\<close>

definition unavailable :: "string \<Rightarrow> state \<Rightarrow> json option result" where
  "unavailable entry s =
     Return None (s\<lparr>console := console s @ [Error_CommandUnavailable entry]\<rparr>)"

text \<open>\<open>sendMiniKitEvent({command, version, payload}); return result\<close>.\<close>

definition send_and_return :: "Command \<Rightarrow> json \<Rightarrow> json \<Rightarrow> state \<Rightarrow> json option result" where
  "send_and_return c payload returned s =
     (case sendMiniKitEvent (CommandMessage c (miniKitCommandVersion c) payload) s of
        Throw s' \<Rightarrow> Throw s'
      | Return u s' \<Rightarrow> Return (Some returned) s')"

definition commands_verify :: "helpers \<Rightarrow> VerifyCommandInput \<Rightarrow> state \<Rightarrow> json option result" where
  "commands_verify h payload s =
     (if window s = None \<or> \<not> isCommandAvailable s Verify then unavailable ''verify'' s
      else
        (let timestamp = toISOString_now h;
             eventPayload =
               JObj [(''action'', JStr (encodeAction h (action payload))),
                     (''signal'', JStr (generateSignal_digest h (signal payload))),
                     (''verification_level'',
                        JStr (case requested_level payload of
                                None \<Rightarrow> VerificationLevel_Orb
                              | Some l \<Rightarrow> if l = [] then VerificationLevel_Orb else l)),
                     (''timestamp'', JStr timestamp)]
         in send_and_return Verify eventPayload eventPayload s))"

definition commands_pay :: "helpers \<Rightarrow> (string \<times> json) list \<Rightarrow> state \<Rightarrow> json option result" where
  "commands_pay h payload s =
     (if window s = None \<or> \<not> isCommandAvailable s Pay then unavailable ''pay'' s
      else if \<not> validatePaymentPayload h payload then Return None s
      else
        (let network = Network_WorldChain;
             eventPayload = JObj (set_field ''network'' network payload)
         in send_and_return Pay eventPayload eventPayload s))"

definition commands_walletAuth :: "helpers \<Rightarrow> WalletAuthInput \<Rightarrow> state \<Rightarrow> json option result" where
  "commands_walletAuth h payload s =
     (case window s of
        None \<Rightarrow> unavailable ''walletAuth'' s
      | Some w \<Rightarrow>
          if \<not> isCommandAvailable s WalletAuth then unavailable ''walletAuth'' s
          else if \<not> validateWalletAuthCommandInput_valid h (WalletAuthInput_json payload) then
            Return None
              (s\<lparr>console := console s @
                   [Error_WalletAuthValidation
                      (validateWalletAuthCommandInput_message h (WalletAuthInput_json payload))]\<rparr>)
          else
            (case URL_protocol h (location_href w) of
               None \<Rightarrow> Return None (s\<lparr>console := console s @ [Error_FailedToGetCurrentURL]\<rparr>)
             | Some protocol \<Rightarrow>
                 (let siweMessage =
                        generateSiweMessage h
                          (JObj [(''scheme'', JStr protocol),
                                 (''domain'', JStr (location_host w)),
                                 (''statement'', or_undefined (statement payload)),
                                 (''uri'', JStr (location_href w)),
                                 (''version'', JStr ''1''),
                                 (''chain_id'', JNum 480),
                                 (''nonce'', JStr (nonce payload)),
                                 (''issued_at'', JStr (toISOString_now h)),
                                 (''expiration_time'', or_undefined (expirationTime payload)),
                                 (''not_before'', or_undefined (notBefore payload)),
                                 (''request_id'', or_undefined (requestId payload))]);
                      walletAuthPayload = JObj [(''siweMessage'', JStr siweMessage)]
                  in send_and_return WalletAuth walletAuthPayload walletAuthPayload s)))"

definition commands_sendTransaction :: "helpers \<Rightarrow> json \<Rightarrow> state \<Rightarrow> json option result" where
  "commands_sendTransaction h payload s =
     (if window s = None \<or> \<not> isCommandAvailable s SendTransaction
      then unavailable ''sendTransaction'' s
      else
        (let validatedPayload = validateSendTransactionPayload h payload
         in send_and_return SendTransaction validatedPayload validatedPayload s))"

definition commands_signMessage :: "json \<Rightarrow> state \<Rightarrow> json option result" where
  "commands_signMessage payload s =
     (if window s = None \<or> \<not> isCommandAvailable s SignMessage
      then unavailable ''signMessage'' s
      else send_and_return SignMessage payload payload s)"

definition commands_signTypedData :: "json \<Rightarrow> state \<Rightarrow> json option result" where
  "commands_signTypedData payload s =
     (if window s = None \<or> \<not> isCommandAvailable s SignTypedData
      then unavailable ''signTypedData'' s
      else send_and_return SignTypedData payload payload s)"

text \<open>The guard of \<open>shareContacts\<close> reads the flag of \<open>Command.SignTypedData\<close> (line 525).\<close>

definition commands_shareContacts :: "json \<Rightarrow> state \<Rightarrow> json option result" where
  "commands_shareContacts payload s =
     (if window s = None \<or> \<not> isCommandAvailable s SignTypedData
      then unavailable ''shareContacts'' s
      else send_and_return ShareContacts payload payload s)"

definition commands_requestPermission :: "json \<Rightarrow> state \<Rightarrow> json option result" where
  "commands_requestPermission payload s =
     (if window s = None \<or> \<not> isCommandAvailable s RequestPermission
      then unavailable ''requestPermission'' s
      else send_and_return RequestPermission payload payload s)"

definition commands_getPermissions :: "state \<Rightarrow> json option result" where
  "commands_getPermissions s =
     (if window s = None \<or> \<not> isCommandAvailable s GetPermissions
      then unavailable ''getPermissions'' s
      else send_and_return GetPermissions (JObj []) (JObj [(''status'', JStr ''sent'')]) s)"

definition commands_sendHapticFeedback :: "json \<Rightarrow> state \<Rightarrow> json option result" where
  "commands_sendHapticFeedback payload s =
     (if window s = None \<or> \<not> isCommandAvailable s SendHapticFeedback
      then unavailable ''sendHapticFeedback'' s
      else send_and_return SendHapticFeedback payload payload s)"

definition commands_shareFiles :: "json \<Rightarrow> state \<Rightarrow> json option result" where
  "commands_shareFiles payload s =
     (if window s = None \<or> \<not> isCommandAvailable s ShareFiles
      then unavailable ''shareFiles'' s
      else send_and_return ShareFiles payload payload s)"

text \<open>
  One call of an entry of \<open>MiniKit.commands\<close> with its argument, the flag its name
  promises, and the dispatch to the entry.
\<close>

datatype command_call =
    Call_verify VerifyCommandInput
  | Call_pay "(string \<times> json) list"
  | Call_walletAuth WalletAuthInput
  | Call_sendTransaction json
  | Call_signMessage json
  | Call_signTypedData json
  | Call_shareContacts json
  | Call_requestPermission json
  | Call_getPermissions
  | Call_sendHapticFeedback json
  | Call_shareFiles json

fun command_of :: "command_call \<Rightarrow> Command" where
  "command_of (Call_verify p) = Verify"
| "command_of (Call_pay p) = Pay"
| "command_of (Call_walletAuth p) = WalletAuth"
| "command_of (Call_sendTransaction p) = SendTransaction"
| "command_of (Call_signMessage p) = SignMessage"
| "command_of (Call_signTypedData p) = SignTypedData"
| "command_of (Call_shareContacts p) = ShareContacts"
| "command_of (Call_requestPermission p) = RequestPermission"
| "command_of Call_getPermissions = GetPermissions"
| "command_of (Call_sendHapticFeedback p) = SendHapticFeedback"
| "command_of (Call_shareFiles p) = ShareFiles"

fun commands :: "helpers \<Rightarrow> command_call \<Rightarrow> state \<Rightarrow> json option result" where
  "commands h (Call_verify p) s = commands_verify h p s"
| "commands h (Call_pay p) s = commands_pay h p s"
| "commands h (Call_walletAuth p) s = commands_walletAuth h p s"
| "commands h (Call_sendTransaction p) s = commands_sendTransaction h p s"
| "commands h (Call_signMessage p) s = commands_signMessage p s"
| "commands h (Call_signTypedData p) s = commands_signTypedData p s"
| "commands h (Call_shareContacts p) s = commands_shareContacts p s"
| "commands h (Call_requestPermission p) s = commands_requestPermission p s"
| "commands h Call_getPermissions s = commands_getPermissions s"
| "commands h (Call_sendHapticFeedback p) s = commands_sendHapticFeedback p s"
| "commands h (Call_shareFiles p) s = commands_shareFiles p s"

section \<open>Event bus, response transforms and correlation\<close>

definition unsubscribe :: "ResponseEvent \<Rightarrow> state \<Rightarrow> state" where
  "unsubscribe event s = s\<lparr>listeners := (listeners s)(event := None)\<rparr>"

text \<open>
  \<open>subscribe\<close> stores the handler in the topic's slot, wrapped for the two topics that
  carry a transform.
\<close>

definition subscribe :: "ResponseEvent \<Rightarrow> handler \<Rightarrow> state \<Rightarrow> state" where
  "subscribe event handler s =
     (if event = MiniAppWalletAuth
      then s\<lparr>listeners := (listeners s)(event := Some (WalletAuthWrapped handler))\<rparr>
      else if event = MiniAppVerifyAction
      then s\<lparr>listeners := (listeners s)(event := Some (VerifyWrapped handler))\<rparr>
      else s\<lparr>listeners := (listeners s)(event := Some handler)\<rparr>)"

text \<open>
  \<open>resolve\<close> of the promise of correlation \<open>pid\<close> with \<open>{commandPayload, finalPayload}\<close>,
  \<open>commandPayload\<close> read from the captured variable at that moment. Settling a promise
  that is already settled does nothing.
\<close>

definition resolve_correlation :: "nat \<Rightarrow> EventPayload \<Rightarrow> state \<Rightarrow> state" where
  "resolve_correlation pid payload s =
     (if pid < length (correlations s) then
        (case resolution (correlations s ! pid) of
           Pending \<Rightarrow>
             s\<lparr>correlations := (correlations s)
                  [pid := (correlations s ! pid)
                     \<lparr>resolution :=
                        Resolved \<lparr>commandPayload = slot (correlations s ! pid),
                                  finalPayload = payload\<rparr>\<rparr>]\<rparr>
         | Resolved r \<Rightarrow> s
         | Rejected \<Rightarrow> s)
      else s)"

definition reject_correlation :: "nat \<Rightarrow> state \<Rightarrow> state" where
  "reject_correlation pid s =
     (if pid < length (correlations s) then
        (case resolution (correlations s ! pid) of
           Pending \<Rightarrow>
             s\<lparr>correlations := (correlations s)
                  [pid := (correlations s ! pid)\<lparr>resolution := Rejected\<rparr>]\<rparr>
         | Resolved r \<Rightarrow> s
         | Rejected \<Rightarrow> s)
      else s)"

definition set_slot :: "nat \<Rightarrow> json option \<Rightarrow> state \<Rightarrow> state" where
  "set_slot pid v s =
     (if pid < length (correlations s)
      then s\<lparr>correlations := (correlations s)[pid := (correlations s ! pid)\<lparr>slot := v\<rparr>]\<rparr>
      else s)"

text \<open>
  Calling the function held in a slot with a payload.
  The verify wrapper hands a success at the Orb level to \<open>compressAndPadProof(...).then\<close>
  and returns; every other payload goes to the original handler at once.
  The wallet-auth wrapper is an \<open>async\<close> function: on success it stores the address and
  suspends at \<open>await MiniKit.getUserByAddress\<close>; otherwise it calls the original handler at
  once, and an exception of that handler rejects the wrapper's promise instead of
  reaching the caller of \<open>trigger\<close>.
\<close>

fun invoke :: "handler \<Rightarrow> EventPayload \<Rightarrow> state \<Rightarrow> unit result" where
  "invoke Noop payload s = Return () s"
| "invoke (Caller n) payload s = Return () (s\<lparr>calls := calls s @ [(n, payload)]\<rparr>)"
| "invoke (Faulty n) payload s = Throw (s\<lparr>calls := calls s @ [(n, payload)]\<rparr>)"
| "invoke (WalletAuthWrapped originalHandler) payload s =
     (if status payload = ''success'' then
        Return ()
          (s\<lparr>user := (user s)\<lparr>walletAddress := Some (address payload)\<rparr>,
             pending := pending s @ [LookupThen payload originalHandler]\<rparr>)
      else Return () (state_of (invoke originalHandler payload s)))"
| "invoke (VerifyWrapped originalHandler) payload s =
     (if status payload = ''success'' \<and> verification_level payload = VerificationLevel_Orb
      then Return () (s\<lparr>pending := pending s @ [CompressThen payload originalHandler]\<rparr>)
      else invoke originalHandler payload s)"
| "invoke (HandleAndUnsubscribe event pid) payload s =
     Return () (resolve_correlation pid payload (unsubscribe event s))"

text \<open>
  \<open>trigger\<close>: an empty slot logs and returns, otherwise the slot's function is called.
  Payloads are plain data, on which the \<open>JSON.stringify\<close> of the log line does not throw.
\<close>

definition trigger :: "ResponseEvent \<Rightarrow> EventPayload \<Rightarrow> state \<Rightarrow> unit result" where
  "trigger event payload s =
     (case listeners s event of
        None \<Rightarrow> Return () (s\<lparr>console := console s @ [Error_NoHandler event payload]\<rparr>)
      | Some listener \<Rightarrow> invoke listener payload s)"

text \<open>
  \<open>awaitCommand\<close> returns its promise (the index of the new correlation).
  \<open>awaitCommand_subscribed\<close> is the state in which it calls the executor: the promise is
  created, \<open>commandPayload\<close> is null and \<open>handleAndUnsubscribe\<close> is subscribed. An executor
  that throws inside the \<open>Promise\<close> constructor rejects the promise. The parameter
  \<open>command\<close> is not used by the source either.
\<close>

definition awaitCommand_subscribed :: "ResponseEvent \<Rightarrow> state \<Rightarrow> state" where
  "awaitCommand_subscribed event s =
     subscribe event (HandleAndUnsubscribe event (length (correlations s)))
       (s\<lparr>correlations := correlations s @ [\<lparr>slot = None, resolution = Pending\<rparr>]\<rparr>)"

definition awaitCommand ::
  "ResponseEvent \<Rightarrow> Command \<Rightarrow> (state \<Rightarrow> json option result) \<Rightarrow> state \<Rightarrow> nat \<times> state" where
  "awaitCommand event command executor s =
     (let pid = length (correlations s)
      in case executor (awaitCommand_subscribed event s) of
           Return returned s3 \<Rightarrow> (pid, set_slot pid returned s3)
         | Throw s3 \<Rightarrow> (pid, reject_correlation pid s3))"

definition settle_async :: "nat \<Rightarrow> settlement \<Rightarrow> state \<Rightarrow> state" where
  "settle_async oid v s =
     (if oid < length (async_results s) \<and> async_results s ! oid = Pending
      then s\<lparr>async_results := (async_results s)[oid := v]\<rparr>
      else s)"

text \<open>
  \<open>commandsAsync.verify\<close>: a new outer promise, then the synchronous part of
  \<open>MiniKit.awaitCommand\<close>, then suspension at the \<open>await\<close>. It returns the outer promise.
\<close>

definition commandsAsync_verify :: "helpers \<Rightarrow> VerifyCommandInput \<Rightarrow> state \<Rightarrow> nat \<times> state" where
  "commandsAsync_verify h payload s =
     (let oid = length (async_results s);
          s1 = s\<lparr>async_results := async_results s @ [Pending]\<rparr>
      in case awaitCommand MiniAppVerifyAction Verify (commands_verify h payload) s1 of
           (pid, s2) \<Rightarrow> (oid, s2\<lparr>pending := pending s2 @ [AwaitCommandThen pid oid]\<rparr>))"

text \<open>
  Resuming a suspended continuation; \<open>None\<close> when the promise it waits for is not settled.
  The two helper promises settle when the environment says so, with the outcome the
  helper gives. An exception in a continuation is an unhandled rejection and reaches
  nobody. A rejected \<open>compressAndPadProof\<close> in the verify wrapper has no handler: the
  original handler is not called. Payloads are values here; the source mutates one shared
  object, which no property below depends on.
\<close>

fun run_task :: "helpers \<Rightarrow> task \<Rightarrow> state \<Rightarrow> state option" where
  "run_task h (CompressThen payload originalHandler) s =
     Some (case compressAndPadProof h (proof_hex payload) of
             None \<Rightarrow> s
           | Some compressedProof \<Rightarrow>
               state_of (invoke originalHandler (payload\<lparr>proof_hex := compressedProof\<rparr>) s))"
| "run_task h (LookupThen payload originalHandler) s =
     Some (state_of (invoke originalHandler payload
       (case getUserProfile h (address payload) of
          None \<Rightarrow> s\<lparr>console := console s @ [Error_FailedToFetchUserProfile]\<rparr>
        | Some userProfile \<Rightarrow>
            s\<lparr>user := (user s)\<lparr>walletAddress := Some (address payload),
                                username := profile_username userProfile,
                                profilePictureUrl := profile_picture_url userProfile\<rparr>\<rparr>)))"
| "run_task h (AwaitCommandThen pid oid) s =
     (if pid < length (correlations s) then
        (case resolution (correlations s ! pid) of
           Pending \<Rightarrow> None
         | Rejected \<Rightarrow> Some (settle_async oid Rejected s)
         | Resolved r \<Rightarrow>
             Some (if status (finalPayload r) = ''success'' \<and>
                      verification_level (finalPayload r) = VerificationLevel_Orb
                   then s\<lparr>pending := pending s @ [CompressAgain r oid]\<rparr>
                   else settle_async oid (Resolved r) s))
      else None)"
| "run_task h (CompressAgain r oid) s =
     Some (case compressAndPadProof h (proof_hex (finalPayload r)) of
             None \<Rightarrow> settle_async oid Rejected s
           | Some compressedProof \<Rightarrow>
               settle_async oid
                 (Resolved (r\<lparr>finalPayload := (finalPayload r)\<lparr>proof_hex := compressedProof\<rparr>\<rparr>)) s)"

text \<open>The environment resumes the \<open>i\<close>-th suspended continuation.\<close>

definition settle :: "helpers \<Rightarrow> nat \<Rightarrow> state \<Rightarrow> state" where
  "settle h i s =
     (if i < length (pending s) then
        (case run_task h (pending s ! i)
                (s\<lparr>pending := take i (pending s) @ drop (Suc i) (pending s)\<rparr>) of
           None \<Rightarrow> s
         | Some s' \<Rightarrow> s')
      else s)"

section \<open>Concrete environments\<close>

text \<open>
  A host that lists every known command but \<open>x\<close>, each with the version the bridge
  requires, and a host that lists them all.
\<close>

definition descriptor_lacking :: "Command \<Rightarrow> supported_command list" where
  "descriptor_lacking x =
     map (\<lambda>c. \<lparr>name = command_name c, supported_versions = [miniKitCommandVersion c]\<rparr>)
       (filter (\<lambda>c. c \<noteq> x) (map fst miniKitCommandVersion_entries))"

definition full_descriptor :: "supported_command list" where
  "full_descriptor =
     map (\<lambda>c. \<lparr>name = command_name c, supported_versions = [miniKitCommandVersion c]\<rparr>)
       (map fst miniKitCommandVersion_entries)"

definition host_window :: "supported_command list \<Rightarrow> browser_window" where
  "host_window cmds =
     \<lparr> MiniKit = False,
       WorldApp = Some \<lparr> world_app_version = 2, device_os = ''ios'',
                         is_optional_analytics = False, supported_commands = cmds \<rparr>,
       location_href = ''https://app.example/'', location_host = ''app.example'' \<rparr>"

definition plain_window :: browser_window where
  "plain_window =
     \<lparr> MiniKit = False, WorldApp = None,
       location_href = ''https://app.example/'', location_host = ''app.example'' \<rparr>"

text \<open>
  Helpers for running the bridge on concrete inputs: the re-encoding appends two digits,
  the lookup finds a profile for every address.
\<close>

definition example_helpers :: helpers where
  "example_helpers =
     \<lparr> encodeAction = (\<lambda>a. ''action''),
       generateSignal_digest = (\<lambda>x. ''0x00''),
       validatePaymentPayload = (\<lambda>p. True),
       validateWalletAuthCommandInput_valid = (\<lambda>p. True),
       validateWalletAuthCommandInput_message = (\<lambda>p. []),
       generateSiweMessage = (\<lambda>p. ''siwe''),
       validateSendTransactionPayload = (\<lambda>p. p),
       compressAndPadProof = (\<lambda>p. Some (p @ ''00'')),
       getUserProfile = (\<lambda>a. Some (UserProfile (Some ''alice'') None)),
       toISOString_now = ''2024-01-01T00:00:00.000Z'',
       URL_protocol = (\<lambda>u. Some ''https'') \<rparr>"

definition orb_success :: EventPayload where
  "orb_success =
     \<lparr> status = ''success'', verification_level = ''orb'', proof_hex = ''0x01'',
       address = [], details = [] \<rparr>"

definition device_success :: EventPayload where
  "device_success =
     \<lparr> status = ''success'', verification_level = ''device'', proof_hex = ''0x01'',
       address = [], details = [] \<rparr>"

definition auth_success :: EventPayload where
  "auth_success =
     \<lparr> status = ''success'', verification_level = [], proof_hex = [],
       address = ''0xA'', details = [] \<rparr>"

definition error_payload :: EventPayload where
  "error_payload =
     \<lparr> status = ''error'', verification_level = [], proof_hex = [],
       address = [], details = [(''error_code'', JStr ''user_rejected'')] \<rparr>"

section \<open>Delivery of one event\<close>


text \<open>
  \<open>trigger\<close> followed, when it suspended a continuation, by the environment resuming that
  continuation: the whole delivery of one event.
\<close>

definition deliver :: "helpers \<Rightarrow> ResponseEvent \<Rightarrow> EventPayload \<Rightarrow> state \<Rightarrow> state" where
  "deliver h event payload s =
     (let s' = state_of (trigger event payload s)
      in if length (pending s) < length (pending s') then settle h (length (pending s)) s'
         else s')"



text \<open>
  One run of \<open>commandsAsync.verify\<close>: the call, then the host's answer \<open>payload\<close>, then
  every continuation resumed as soon as it can run (the wrapper's re-encoding, the rest
  of \<open>commandsAsync.verify\<close>, its own re-encoding). The result is the state of the promise
  the caller awaits. Resuming a continuation that is not there does nothing.
\<close>

definition commandsAsync_verify_run ::
  "helpers \<Rightarrow> VerifyCommandInput \<Rightarrow> EventPayload \<Rightarrow> state \<Rightarrow> settlement" where
  "commandsAsync_verify_run h input payload s =
     (case commandsAsync_verify h input s of
        (oid, s1) \<Rightarrow>
          (let n = length (pending s);
               s2 = state_of (trigger MiniAppVerifyAction payload s1);
               s3 = settle h (Suc n) s2;
               s4 = settle h n s3;
               s5 = settle h n s4
           in async_results s5 ! oid))"

text \<open>
  Concrete states: a page outside the host (a window without \<open>WorldApp\<close>, where every
  entry's guard fails), and a page in a host that lists every command, after \<open>install\<close>.
\<close>

definition outside_host :: state where
  "outside_host = initial_state (Some plain_window) True"

definition installed_host :: state where
  "installed_host =
     snd (install (Some ''app_1'') (initial_state (Some (host_window full_descriptor)) True))"

definition verify_input :: VerifyCommandInput where
  "verify_input = VerifyCommandInput (JStr ''vote'') JNull None"

definition auth_input :: WalletAuthInput where
  "auth_input = WalletAuthInput ''nonce1234'' None None None None"

text \<open>
  The page outside the host awaits \<open>verify\<close>, the host answers with a success at the Orb
  level, and the re-encoding completes.
\<close>

definition verify_awaiting :: state where
  "verify_awaiting =
     snd (awaitCommand MiniAppVerifyAction Verify (commands_verify example_helpers verify_input)
            outside_host)"

definition verify_answered :: state where
  "verify_answered = state_of (trigger MiniAppVerifyAction orb_success verify_awaiting)"

definition verify_reencoded :: state where
  "verify_reencoded = settle example_helpers 0 verify_answered"

text \<open>The same page awaiting \<open>walletAuth\<close>.\<close>

definition auth_awaiting :: state where
  "auth_awaiting =
     snd (awaitCommand MiniAppWalletAuth WalletAuth
            (commands_walletAuth example_helpers auth_input) outside_host)"

text \<open>
  A page that subscribed handler 1 to the verify topic; one that subscribed it to the
  wallet-auth topic, and the host's answer there.
\<close>

definition verify_subscribed :: state where
  "verify_subscribed = subscribe MiniAppVerifyAction (Caller 1) outside_host"

definition auth_subscribed :: state where
  "auth_subscribed = subscribe MiniAppWalletAuth (Caller 1) outside_host"

definition auth_answered :: state where
  "auth_answered = state_of (trigger MiniAppWalletAuth auth_success auth_subscribed)"

section \<open>Installation and capability negotiation\<close>

lemmas install_defs = install_def initial_state_def host_window_def plain_window_def
  descriptor_lacking_def full_descriptor_def miniKitCommandVersion_entries_def sendInit_def
  sendWebviewEvent_def commandsValid_def set_user_properties_def MINIKIT_VERSION_def

text \<open>
  C10. Where there is no \<open>window\<close> object at all, \<open>install\<close> returns the failure
  \<open>AlreadyInstalled\<close>, the code of a duplicate registration, and not \<open>OutsideOfWorldApp\<close>;
  it changes nothing.
\<close>

theorem install_without_window:
  "window s = None \<Longrightarrow> install a s = (Failure AlreadyInstalled, s)"
  by (simp add: install_def)

theorem install_without_window_witness:
  "window (initial_state None True) = None \<and>
   install (Some ''app_1'') (initial_state None True)
     = (Failure AlreadyInstalled, initial_state None True)"
  using install_without_window [of "initial_state None True" "Some ''app_1''"]
  by (simp add: initial_state_def)

text \<open>
  A bridge is registered in the window only where the host context object is present:
  \<open>install\<close> keeps it so, and so outside the host no bridge is registered.
\<close>

lemma install_registers_in_host_only:
  assumes "window s = Some w" and "MiniKit w \<longrightarrow> WorldApp w \<noteq> None"
    and "window (snd (install a s)) = Some w'"
  shows "MiniKit w' \<longrightarrow> WorldApp w' \<noteq> None"
proof (cases "MiniKit w \<or> WorldApp w = None")
  case True
  then have "window (snd (install a s)) = window s"
    using assms(1) by (auto simp add: install_def)
  then show ?thesis using assms by simp
next
  case False
  then obtain wa where wa: "WorldApp w = Some wa" and nm: "\<not> MiniKit w" by auto
  have "window (snd (commandsValid_every cmds rows t)) = window t" for cmds rows t
    by (induction cmds rows t rule: commandsValid_every.induct)
       (auto simp add: Let_def split: option.splits)
  then have cv: "commandsValid cmds t = (b, t') \<Longrightarrow> window t' = window t" for cmds t b t'
    by (metis commandsValid_def snd_conv)
  have "window (snd (install a s)) = Some (w\<lparr>MiniKit := True\<rparr>)"
    using assms(1) wa nm
    by (auto simp add: install_def sendInit_def sendWebviewEvent_def set_user_properties_def
          Let_def split: prod.splits bool.splits dest: cv)
  then show ?thesis using assms(3) wa by auto
qed

text \<open>
  C9. \<open>install\<close> is not atomic on failure: called with a non-empty identity \<open>a\<close> in a
  window that has no host context object (and hence no registered bridge), it returns the
  failure \<open>OutsideOfWorldApp\<close>, and yet the process-wide \<open>appId\<close> is \<open>a\<close> afterwards (and
  nothing else has changed).
\<close>

theorem install_outside_host_records_appId:
  assumes "window s = Some w" and "\<not> MiniKit w" and "WorldApp w = None" and "a \<noteq> []"
  shows "install (Some a) s = (Failure OutsideOfWorldApp, s\<lparr>appId := Some a\<rparr>)"
  using assms by (simp add: install_def)

theorem install_outside_host_records_appId_witness:
  "window (initial_state (Some plain_window) True) = Some plain_window \<and>
   \<not> MiniKit plain_window \<and> WorldApp plain_window = None \<and> ''app_1'' \<noteq> [] \<and>
   install (Some ''app_1'') (initial_state (Some plain_window) True)
     = (Failure OutsideOfWorldApp, (initial_state (Some plain_window) True)\<lparr>appId := Some ''app_1''\<rparr>) \<and>
   appId (snd (install (Some ''app_1'') (initial_state (Some plain_window) True))) = Some ''app_1''"
  using install_outside_host_records_appId
          [of "initial_state (Some plain_window) True" plain_window "''app_1''"]
  by (simp add: initial_state_def plain_window_def)

text \<open>
  What negotiation does with a host that lacks exactly one known command \<open>x\<close>: \<open>install\<close>
  reports \<open>AppOutOfDate\<close>, and the commands whose flag is set are exactly those that come
  before \<open>x\<close> in the table. The flag of \<open>x\<close> stays false, and so do the flags of the
  commands after \<open>x\<close>, which \<open>every\<close> never visits.
\<close>

lemma install_descriptor_lacking:
  "fst (install a (initial_state (Some (host_window (descriptor_lacking x))) True))
     = Failure AppOutOfDate \<and>
   isCommandAvailable
       (snd (install a (initial_state (Some (host_window (descriptor_lacking x))) True)))
     = (\<lambda>c. c \<in> set (takeWhile (\<lambda>d. d \<noteq> x) (map fst miniKitCommandVersion_entries)))"
  by (cases x) (auto simp add: install_defs fun_eq_iff)

text \<open>
  C1, at the input where the code departs from it. The host lists every command but
  \<open>verify\<close>, each with version 1. \<open>install\<close> reports \<open>AppOutOfDate\<close> and the flag of
  \<open>verify\<close> is false, as claimed; but the flag of \<open>pay\<close>, which the host does list with
  the required version, is false too.
\<close>

theorem install_lacking_verify_leaves_pay_unavailable:
  "fst (install (Some ''app_1'')
          (initial_state (Some (host_window (descriptor_lacking Verify))) True))
     = Failure AppOutOfDate \<and>
   \<not> isCommandAvailable
       (snd (install (Some ''app_1'')
               (initial_state (Some (host_window (descriptor_lacking Verify))) True))) Verify \<and>
   find (\<lambda>command. name command = command_name Pay) (descriptor_lacking Verify)
     = Some \<lparr>name = ''pay'', supported_versions = [1]\<rparr> \<and>
   \<not> isCommandAvailable
       (snd (install (Some ''app_1'')
               (initial_state (Some (host_window (descriptor_lacking Verify))) True))) Pay"
  by (simp add: install_defs)

section \<open>Guards of the command entry points\<close>

lemmas commands_defs = commands_verify_def commands_pay_def commands_walletAuth_def
  commands_sendTransaction_def commands_signMessage_def commands_signTypedData_def
  commands_shareContacts_def commands_requestPermission_def commands_getPermissions_def
  commands_sendHapticFeedback_def commands_shareFiles_def unavailable_def
  send_and_return_def sendMiniKitEvent_def

text \<open>
  Every entry but \<open>shareContacts\<close> obeys its guard: without a \<open>window\<close>, or with its own
  flag false, it logs, returns null, does not throw and hands nothing to the transport.
\<close>

lemma commands_guard:
  assumes "window s = None \<or> \<not> isCommandAvailable s (command_of cc)"
    and "command_of cc \<noteq> ShareContacts"
  shows "\<exists>entry. commands h cc s
           = Return None (s\<lparr>console := console s @ [Error_CommandUnavailable entry]\<rparr>)"
  using assms by (cases cc) (auto simp add: commands_defs split: option.splits)

text \<open>
  C4, at the input where the code departs from it. After \<open>install\<close> on a host that lists
  every command but \<open>share-contacts\<close>, the flag of \<open>share-contacts\<close> is false, and
  \<open>commands.shareContacts\<close> nevertheless hands its envelope to the transport and returns the
  payload: its guard reads the flag of \<open>sign-typed-data\<close>.
\<close>

theorem shareContacts_sends_when_unavailable:
  "(let s = snd (install (Some ''app_1'')
                   (initial_state (Some (host_window (descriptor_lacking ShareContacts))) True));
        payload = JObj [(''isMultiSelectEnabled'', JBool False)]
    in window s \<noteq> None \<and>
       isCommandAvailable s ShareContacts = False \<and>
       isCommandAvailable s SignTypedData = True \<and>
       commands h (Call_shareContacts payload) s
         = Return (Some payload)
             (s\<lparr>sent := sent s @ [CommandMessage ShareContacts 1 payload]\<rparr>))"
  by (simp add: install_defs commands_defs)

section \<open>Event bus\<close>

lemmas scenario_defs = outside_host_def installed_host_def verify_input_def auth_input_def
  verify_awaiting_def verify_answered_def verify_reencoded_def auth_awaiting_def
  verify_subscribed_def auth_subscribed_def auth_answered_def orb_success_def
  device_success_def auth_success_def error_payload_def example_helpers_def

lemmas bus_defs = subscribe_def unsubscribe_def trigger_def VerificationLevel_Orb_def
  awaitCommand_def awaitCommand_subscribed_def set_slot_def resolve_correlation_def
  reject_correlation_def settle_def deliver_def settle_async_def

text \<open>Negotiation and installation leave the listener slots alone.\<close>

lemma commandsValid_every_listeners:
  "listeners (snd (commandsValid_every cmds rows s)) = listeners s"
  by (induction cmds rows s rule: commandsValid_every.induct)
     (auto simp add: Let_def split: option.splits)

lemma commandsValid_listeners:
  "commandsValid cmds s = (b, s') \<Longrightarrow> listeners s' = listeners s"
  using commandsValid_every_listeners [of cmds miniKitCommandVersion_entries s]
  by (simp add: commandsValid_def)

lemma install_listeners: "listeners (snd (install a s)) = listeners s"
  by (auto simp add: install_def sendInit_def sendWebviewEvent_def set_user_properties_def
        Let_def split: option.splits prod.splits bool.splits dest: commandsValid_listeners)

text \<open>
  C8 as stated fails: on a topic nobody ever subscribed to, the slot still holds the
  initial \<open>() => {}\<close>, so \<open>trigger\<close> calls it and logs nothing. Here the page has done
  nothing at all, the payment topic is triggered, and the console stays empty.
\<close>

theorem trigger_never_subscribed_logs_nothing:
  "trigger MiniAppPayment error_payload outside_host = Return () outside_host \<and>
   listeners outside_host MiniAppPayment = Some Noop \<and>
   console (state_of (trigger MiniAppPayment error_payload outside_host)) = []"
  by (simp add: trigger_def outside_host_def initial_state_def)

text \<open>
  C8, amended. After \<open>unsubscribe(T)\<close>, \<open>trigger(T, p)\<close> logs the "no handler" error,
  invokes no handler, changes nothing else and does not throw. Where no handler was ever
  subscribed for \<open>T\<close> (the class as loaded, or after \<open>install\<close>), \<open>trigger(T, p)\<close> calls
  the initial no-op: it logs nothing, invokes no caller handler, changes nothing and does
  not throw.
\<close>

theorem trigger_without_handler:
  "trigger T p (unsubscribe T s)
     = Return () ((unsubscribe T s)\<lparr>console := console s @ [Error_NoHandler T p]\<rparr>) \<and>
   calls (state_of (trigger T p (unsubscribe T s))) = calls s \<and>
   trigger T p (initial_state w ok) = Return () (initial_state w ok) \<and>
   trigger T p (snd (install a (initial_state w ok)))
     = Return () (snd (install a (initial_state w ok)))"
proof -
  have "listeners (snd (install a (initial_state w ok))) T = Some Noop"
    by (simp add: install_listeners) (simp add: initial_state_def)
  then show ?thesis
    by (simp add: trigger_def unsubscribe_def) (simp add: initial_state_def)
qed

text \<open>
  C6. After \<open>subscribe(T, h1)\<close> and then \<open>subscribe(T, h2)\<close> the state is the one that
  \<open>subscribe(T, h2)\<close> alone gives, whatever the two handlers are: the second replaces the
  first. With a caller handler \<open>h2\<close>, the delivery of \<open>trigger(T, p)\<close> invokes \<open>h2\<close>, once,
  with \<open>p\<close> (with the re-encoded proof on the verify topic for a success at the Orb level,
  and not at all if that re-encoding is rejected), and never \<open>h1\<close>.
\<close>

theorem second_subscribe_replaces_first:
  "subscribe T g2 (subscribe T g1 s) = subscribe T g2 s \<and>
   calls (deliver h T p (subscribe T (Caller h2) (subscribe T g1 s)))
     = calls s @
         (if T = MiniAppVerifyAction \<and> status p = ''success'' \<and>
             verification_level p = VerificationLevel_Orb
          then (case compressAndPadProof h (proof_hex p) of
                  None \<Rightarrow> []
                | Some compressedProof \<Rightarrow> [(h2, p\<lparr>proof_hex := compressedProof\<rparr>)])
          else [(h2, p)]) \<and>
   (h1 \<noteq> h2 \<longrightarrow>
      filter (\<lambda>c. fst c = h1)
          (calls (deliver h T p (subscribe T (Caller h2) (subscribe T (Caller h1) s))))
        = filter (\<lambda>c. fst c = h1) (calls s))"
  by (auto simp add: trigger_def subscribe_def deliver_def settle_def nth_append
        split: option.splits)

theorem second_subscribe_replaces_first_witness:
  "(1::nat) \<noteq> 2 \<and>
   subscribe MiniAppPayment (Caller 2) (subscribe MiniAppPayment (Caller 1) outside_host)
     = subscribe MiniAppPayment (Caller 2) outside_host \<and>
   calls (deliver example_helpers MiniAppPayment error_payload
            (subscribe MiniAppPayment (Caller 2) (subscribe MiniAppPayment (Caller 1) outside_host)))
     = [(2, error_payload)] \<and>
   filter (\<lambda>c. fst c = 1)
       (calls (deliver example_helpers MiniAppPayment error_payload
                 (subscribe MiniAppPayment (Caller 2)
                    (subscribe MiniAppPayment (Caller 1) outside_host))))
     = []"
  using second_subscribe_replaces_first
          [where T = MiniAppPayment and ?g1.0 = "Caller 1" and ?g2.0 = "Caller 2"
             and ?h1.0 = 1 and ?h2.0 = 2 and s = outside_host and h = example_helpers
             and p = error_payload]
  by (simp add: scenario_defs bus_defs initial_state_def)

section \<open>Response transforms\<close>

text \<open>
  C2. With a caller handler subscribed to the verify topic: a success at the Orb level
  is not handed to the handler inside \<open>trigger\<close>, which only suspends the re-encoding; the
  handler is invoked when the re-encoding completes, with the payload whose proof is the
  re-encoded one (and not at all if the re-encoding is rejected). Every other payload is
  handed to the handler inside \<open>trigger\<close>, unmodified.
\<close>

theorem verify_wrapper_delivery:
  "(status p = ''success'' \<and> verification_level p = VerificationLevel_Orb \<longrightarrow>
      trigger MiniAppVerifyAction p (subscribe MiniAppVerifyAction (Caller n) s)
        = Return () ((subscribe MiniAppVerifyAction (Caller n) s)
                        \<lparr>pending := pending s @ [CompressThen p (Caller n)]\<rparr>) \<and>
      calls (state_of (trigger MiniAppVerifyAction p (subscribe MiniAppVerifyAction (Caller n) s)))
        = calls s \<and>
      calls (deliver h MiniAppVerifyAction p (subscribe MiniAppVerifyAction (Caller n) s))
        = calls s @ (case compressAndPadProof h (proof_hex p) of
                       None \<Rightarrow> []
                     | Some compressedProof \<Rightarrow> [(n, p\<lparr>proof_hex := compressedProof\<rparr>)])) \<and>
   (\<not> (status p = ''success'' \<and> verification_level p = VerificationLevel_Orb) \<longrightarrow>
      trigger MiniAppVerifyAction p (subscribe MiniAppVerifyAction (Caller n) s)
        = Return () ((subscribe MiniAppVerifyAction (Caller n) s)\<lparr>calls := calls s @ [(n, p)]\<rparr>))"
  by (auto simp add: trigger_def subscribe_def deliver_def settle_def nth_append
        split: option.splits)

theorem verify_wrapper_delivery_witness:
  "status orb_success = ''success'' \<and> verification_level orb_success = VerificationLevel_Orb \<and>
   calls (state_of (trigger MiniAppVerifyAction orb_success verify_subscribed)) = [] \<and>
   calls (deliver example_helpers MiniAppVerifyAction orb_success verify_subscribed)
     = [(1, orb_success\<lparr>proof_hex := ''0x0100''\<rparr>)] \<and>
   verification_level device_success \<noteq> VerificationLevel_Orb \<and>
   trigger MiniAppVerifyAction device_success verify_subscribed
     = Return () (verify_subscribed\<lparr>calls := [(1, device_success)]\<rparr>) \<and>
   status error_payload \<noteq> ''success'' \<and>
   trigger MiniAppVerifyAction error_payload verify_subscribed
     = Return () (verify_subscribed\<lparr>calls := [(1, error_payload)]\<rparr>)"
  using verify_wrapper_delivery [of orb_success 1 outside_host example_helpers]
    verify_wrapper_delivery [of device_success 1 outside_host example_helpers]
    verify_wrapper_delivery [of error_payload 1 outside_host example_helpers]
  by (simp add: scenario_defs bus_defs initial_state_def)

text \<open>
  C5 as stated fails: the delivery to the caller's handler waits for the lookup. Handler 1
  is subscribed to the wallet-auth topic and the host answers with a success for address
  \<open>0xA\<close>. When \<open>trigger\<close> returns the handler has not run and the wrapper is suspended at
  the lookup; the handler runs when the lookup has settled, after the profile is merged.
\<close>

theorem walletAuth_handler_waits_for_lookup:
  "calls auth_answered = [] \<and>
   pending auth_answered = [LookupThen auth_success (Caller 1)] \<and>
   username (user auth_answered) = None \<and>
   calls (settle example_helpers 0 auth_answered) = [(1, auth_success)] \<and>
   username (user (settle example_helpers 0 auth_answered)) = Some ''alice''"
  by (simp add: scenario_defs bus_defs initial_state_def)

text \<open>
  C5, amended. For a wallet-auth event with status success and address \<open>A\<close> delivered
  through \<open>trigger\<close> to a subscribed caller handler: \<open>trigger\<close> stores \<open>A\<close> as the session's
  wallet address, suspends at the profile lookup and returns without invoking the
  handler and without throwing. When the lookup has settled the handler is invoked with
  the unmodified payload: after a successful lookup the session context holds the profile
  for \<open>A\<close>, after a failed one the failure is logged and the session context keeps only
  the address.
\<close>

theorem walletAuth_wrapper_delivery:
  assumes "status p = ''success''"
  shows "trigger MiniAppWalletAuth p (subscribe MiniAppWalletAuth (Caller n) s)
           = Return () ((subscribe MiniAppWalletAuth (Caller n) s)
                \<lparr>user := (user s)\<lparr>walletAddress := Some (address p)\<rparr>,
                 pending := pending s @ [LookupThen p (Caller n)]\<rparr>) \<and>
         deliver h MiniAppWalletAuth p (subscribe MiniAppWalletAuth (Caller n) s)
           = (case getUserProfile h (address p) of
                None \<Rightarrow>
                  (subscribe MiniAppWalletAuth (Caller n) s)
                    \<lparr>user := (user s)\<lparr>walletAddress := Some (address p)\<rparr>,
                     console := console s @ [Error_FailedToFetchUserProfile],
                     calls := calls s @ [(n, p)]\<rparr>
              | Some userProfile \<Rightarrow>
                  (subscribe MiniAppWalletAuth (Caller n) s)
                    \<lparr>user := (user s)\<lparr>walletAddress := Some (address p),
                                        username := profile_username userProfile,
                                        profilePictureUrl := profile_picture_url userProfile\<rparr>,
                     calls := calls s @ [(n, p)]\<rparr>)"
  using assms
  by (auto simp add: trigger_def subscribe_def deliver_def settle_def nth_append
        split: option.splits)

theorem walletAuth_wrapper_delivery_witness:
  "status auth_success = ''success'' \<and>
   calls (state_of (trigger MiniAppWalletAuth auth_success auth_subscribed)) = [] \<and>
   user (deliver example_helpers MiniAppWalletAuth auth_success auth_subscribed)
     = \<lparr> walletAddress = Some ''0xA'', username = Some ''alice'', profilePictureUrl = None,
         optedIntoOptionalAnalytics = None, deviceOS = None, worldAppVersion = None \<rparr> \<and>
   calls (deliver example_helpers MiniAppWalletAuth auth_success auth_subscribed)
     = [(1, auth_success)] \<and>
   console (deliver (example_helpers\<lparr>getUserProfile := (\<lambda>a. None)\<rparr>)
              MiniAppWalletAuth auth_success auth_subscribed)
     = [Error_FailedToFetchUserProfile] \<and>
   calls (deliver (example_helpers\<lparr>getUserProfile := (\<lambda>a. None)\<rparr>)
            MiniAppWalletAuth auth_success auth_subscribed)
     = [(1, auth_success)]"
  using walletAuth_wrapper_delivery [of auth_success 1 outside_host example_helpers]
    walletAuth_wrapper_delivery
      [of auth_success 1 outside_host "example_helpers\<lparr>getUserProfile := (\<lambda>a. None)\<rparr>"]
  by (simp add: scenario_defs bus_defs initial_state_def)

section \<open>Correlation of commands and events\<close>















text \<open>
  Every command entry is such an executor: it writes to the transport and the console
  only.
\<close>

lemma commands_frame:
  "listeners (state_of (commands h cc s)) = listeners s \<and>
   correlations (state_of (commands h cc s)) = correlations s \<and>
   pending (state_of (commands h cc s)) = pending s \<and>
   calls (state_of (commands h cc s)) = calls s"
  by (cases cc) (auto simp add: commands_defs sendWebviewEvent_def Let_def split: option.splits)





text \<open>
  What \<open>commandsAsync.verify\<close> resolves to when the host answers with a success at the
  Orb level and the transport works: the proof has gone through \<open>compressAndPadProof\<close>
  twice, once in the wrapper of \<open>subscribe\<close> and once more after \<open>await awaitCommand\<close>.
\<close>

lemma commandsAsync_verify_run_orb:
  assumes "transport_ok s" and "status p = ''success''"
    and "verification_level p = VerificationLevel_Orb"
    and "compressAndPadProof h (proof_hex p) = Some c1"
    and "compressAndPadProof h c1 = Some c2"
  shows "\<exists>cp. commandsAsync_verify_run h input p s
           = Resolved \<lparr>commandPayload = cp, finalPayload = p\<lparr>proof_hex := c2\<rparr>\<rparr>"
  using assms
  by (auto simp add: commandsAsync_verify_run_def commandsAsync_verify_def bus_defs
        commands_verify_def unavailable_def send_and_return_def sendMiniKitEvent_def
        sendWebviewEvent_def Let_def nth_append)


text \<open>
  C7, at an input where the code departs from it. In an installed bridge
  \<open>commandsAsync.verify\<close> is called, the host answers with a success at the Orb level and
  proof \<open>0x01\<close>, and the re-encoding appends \<open>00\<close>. One application gives \<open>0x0100\<close>; the
  \<open>finalPayload\<close> the caller receives carries \<open>0x010000\<close>, the re-encoding of the
  re-encoding.
\<close>

theorem commandsAsync_verify_reencodes_twice:
  "commandsAsync_verify_run example_helpers verify_input orb_success installed_host
     = Resolved
         \<lparr>commandPayload =
            Some (JObj [(''action'', JStr ''action''), (''signal'', JStr ''0x00''),
                        (''verification_level'', JStr ''orb''),
                        (''timestamp'', JStr ''2024-01-01T00:00:00.000Z'')]),
          finalPayload = orb_success\<lparr>proof_hex := ''0x010000''\<rparr>\<rparr> \<and>
   compressAndPadProof example_helpers (proof_hex orb_success) = Some ''0x0100'' \<and>
   compressAndPadProof example_helpers ''0x0100'' = Some ''0x010000''"
  by (simp add: commandsAsync_verify_run_def commandsAsync_verify_def scenario_defs bus_defs
        install_defs commands_defs Let_def)

end
